theory Spec2Isabelle
  imports Complex_Main
begin

section \<open>Data model (types.ts)\<close>

datatype AppState = TREE | SCATTERED | ZOOM

datatype GestureType = NONE | FIST | OPEN_HAND | PINCH

text \<open>
  JavaScript numbers are IEEE doubles. They are modelled as \<^typ>\<open>real\<close>: every
  comparison and arithmetic step below is the exact one, without rounding and without
  NaN. Millisecond timestamps (\<^verbatim>\<open>Date.now()\<close>) are integers and modelled as
  \<^typ>\<open>int\<close>.
\<close>

record HandData =
  gesture :: GestureType
  x :: real
  y :: real
  tiltX :: real
  tiltY :: real

record PhotoData =
  id :: string
  url :: string
  aspectRatio :: real

section \<open>The application component (App)\<close>

text \<open>
  The component's hooks as one record: the two \<^verbatim>\<open>useState\<close> cells
  \<^verbatim>\<open>appState\<close> and \<^verbatim>\<open>photos\<close>, the \<^verbatim>\<open>handData\<close> cell, and the ref
  \<^verbatim>\<open>lastStateChange\<close>. A handler reads the cells of the render it was created in and
  writes through the setters; the model lets every handler call see the state its
  predecessor left, that is, a render happens between two events.
\<close>

record App =
  appState :: AppState
  photos :: "PhotoData list"
  handData :: HandData
  lastStateChange :: int

definition initialHandData :: HandData where
  "initialHandData = \<lparr>gesture = NONE, x = 0.5, y = 0.5, tiltX = 0, tiltY = 0\<rparr>"

definition initialApp :: App where
  "initialApp = \<lparr>appState = TREE, photos = [], handData = initialHandData, lastStateChange = 0\<rparr>"

text \<open>
  \<^verbatim>\<open>handleHandUpdate(data)\<close>, with the value of \<^verbatim>\<open>Date.now()\<close> as the argument
  \<open>now\<close>. The branches are the source's, in the source's order; each \<^verbatim>\<open>return\<close>
  ends the call with the state reached so far.
\<close>

definition handleHandUpdate :: "HandData \<Rightarrow> int \<Rightarrow> App \<Rightarrow> App" where
  "handleHandUpdate data now st =
     (let st1 = st\<lparr>handData := data\<rparr>;
          timeSinceChange = now - lastStateChange st
      in if gesture data = FIST \<and> appState st \<noteq> TREE
           then st1\<lparr>appState := TREE, lastStateChange := now\<rparr>
         else if timeSinceChange < 500 then st1
         else if gesture data = OPEN_HAND \<and> appState st = TREE
           then st1\<lparr>appState := SCATTERED, lastStateChange := now\<rparr>
         else if gesture data = PINCH \<and> appState st = SCATTERED
           then (if length (photos st) > 0
                   then st1\<lparr>appState := ZOOM, lastStateChange := now\<rparr>
                 else st1)
         else if gesture data = OPEN_HAND \<and> appState st = ZOOM
           then st1\<lparr>appState := SCATTERED, lastStateChange := now\<rparr>
         else st1)"

text \<open>
  \<^verbatim>\<open>handlePhotoUpload(e)\<close>. The argument \<open>files\<close> is \<^verbatim>\<open>e.target.files\<close>
  (\<open>None\<close> when it is null). Each file becomes a photo with aspect ratio 1; its id is
  drawn at random and its URL is created by the browser, so both are taken from the
  environment as the functions \<open>rid\<close> and \<open>mkurl\<close>.
\<close>

definition newPhoto :: "('f \<Rightarrow> string) \<Rightarrow> ('f \<Rightarrow> string) \<Rightarrow> 'f \<Rightarrow> PhotoData" where
  "newPhoto rid mkurl file = \<lparr>id = rid file, url = mkurl file, aspectRatio = 1\<rparr>"

definition handlePhotoUpload ::
  "('f \<Rightarrow> string) \<Rightarrow> ('f \<Rightarrow> string) \<Rightarrow> 'f list option \<Rightarrow> App \<Rightarrow> App" where
  "handlePhotoUpload rid mkurl files st =
     (case files of
        None \<Rightarrow> st
      | Some fs \<Rightarrow>
          (let newPhotos = map (newPhoto rid mkurl) fs;
               st1 = st\<lparr>photos := photos st @ newPhotos\<rparr>
           in if appState st = TREE then st1\<lparr>appState := SCATTERED\<rparr> else st1))"

section \<open>The gesture classifier (HandController)\<close>

text \<open>
  A landmark of the hand tracker has three coordinates; the tracker's result holds, for
  each detected hand, the list of its screen landmarks and the list of its world
  landmarks. The tracker is an external library: the field names \<open>lx\<close>, \<open>ly\<close>,
  \<open>lz\<close> stand for its \<^verbatim>\<open>x\<close>, \<^verbatim>\<open>y\<close>, \<^verbatim>\<open>z\<close>. Both lists of the result are
  optional, as \<^verbatim>\<open>processResults\<close> tests them for presence before reading their length.
\<close>

record Landmark =
  lx :: real
  ly :: real
  lz :: real

record HandLandmarkerResult =
  landmarks :: "Landmark list list option"
  worldLandmarks :: "Landmark list list option"

text \<open>
  Reading \<^verbatim>\<open>landmarks[i]\<close> beyond the end of the array gives \<^verbatim>\<open>undefined\<close>, and the
  first property read on it throws a TypeError, which the caller \<^verbatim>\<open>predict\<close> catches:
  no hand update is delivered for that frame. Every landmark that \<^verbatim>\<open>processResults\<close>
  fetches is read before the function returns, except the 2D thumb tip when the 2D fist
  test succeeds; that one has index 4 and exists whenever index 17, read before it, does.
  So the model raises at the fetch.
\<close>

datatype error = TypeError

definition landmarkAt :: "'a list \<Rightarrow> nat \<Rightarrow> error + 'a" where
  "landmarkAt xs i = (if i < length xs then Inr (xs ! i) else Inl TypeError)"

definition bindE :: "error + 'a \<Rightarrow> ('a \<Rightarrow> error + 'b) \<Rightarrow> error + 'b" where
  "bindE m f = (case m of Inl e \<Rightarrow> Inl e | Inr v \<Rightarrow> f v)"

text \<open>The two distance helpers of \<^verbatim>\<open>processResults\<close>.\<close>

definition dist3D :: "Landmark \<Rightarrow> Landmark \<Rightarrow> real" where
  "dist3D p1 p2 = sqrt ((lx p1 - lx p2)\<^sup>2 + (ly p1 - ly p2)\<^sup>2 + (lz p1 - lz p2)\<^sup>2)"

definition dist2D :: "Landmark \<Rightarrow> Landmark \<Rightarrow> real" where
  "dist2D p1 p2 = sqrt ((lx p1 - lx p2)\<^sup>2 + (ly p1 - ly p2)\<^sup>2)"

text \<open>
  The branch of \<^verbatim>\<open>processResults\<close> taken when world landmarks are present, and the
  fallback on the screen landmarks. \<^verbatim>\<open>reduce\<close> is a left fold from 0.
\<close>

definition gesture3D :: "Landmark list \<Rightarrow> error + GestureType" where
  "gesture3D wl =
     bindE (landmarkAt wl 0) (\<lambda>wrist3D.
     bindE (landmarkAt wl 4) (\<lambda>thumbTip3D.
     bindE (landmarkAt wl 8) (\<lambda>indexTip3D.
     bindE (landmarkAt wl 12) (\<lambda>middleTip3D.
     bindE (landmarkAt wl 16) (\<lambda>ringTip3D.
     bindE (landmarkAt wl 20) (\<lambda>pinkyTip3D.
       let tips = [indexTip3D, middleTip3D, ringTip3D, pinkyTip3D];
           avgDistToWrist = foldl (\<lambda>acc tip. acc + dist3D tip wrist3D) 0 tips / 4;
           pinchDist = dist3D thumbTip3D indexTip3D
       in Inr (if avgDistToWrist < 0.085 then FIST
               else if pinchDist < 0.035 then PINCH
               else if avgDistToWrist > 0.11 then OPEN_HAND
               else NONE)))))))"

definition gesture2D :: "Landmark list \<Rightarrow> Landmark \<Rightarrow> error + GestureType" where
  "gesture2D lms wrist =
     bindE (landmarkAt lms 4) (\<lambda>thumbTip.
     bindE (landmarkAt lms 8) (\<lambda>indexTip.
     bindE (landmarkAt lms 12) (\<lambda>middleTip.
     bindE (landmarkAt lms 16) (\<lambda>ringTip.
     bindE (landmarkAt lms 20) (\<lambda>pinkyTip.
       let avgDistToWrist =
             foldl (\<lambda>acc tip. acc + dist2D tip wrist) 0
               [indexTip, middleTip, ringTip, pinkyTip] / 4
       in Inr (if avgDistToWrist < 0.3 then FIST
               else if dist2D thumbTip indexTip < 0.05 then PINCH
               else if avgDistToWrist > 0.4 then OPEN_HAND
               else NONE))))))"

text \<open>
  \<^verbatim>\<open>processResults(results)\<close>, returning the record it passes to the callback.
  \<open>processHand\<close> is the body of its outer \<^verbatim>\<open>if\<close>, entered when at least one hand
  was detected; \<open>neutralHandData\<close> holds the initial values of its five local variables.
\<close>

definition neutralHandData :: HandData where
  "neutralHandData = \<lparr>gesture = NONE, x = 0.5, y = 0.5, tiltX = 0, tiltY = 0\<rparr>"

definition processHand :: "Landmark list \<Rightarrow> Landmark list list option \<Rightarrow> error + HandData" where
  "processHand lms world =
     bindE (landmarkAt lms 0) (\<lambda>wrist.
     bindE (landmarkAt lms 5) (\<lambda>indexMCP.
     bindE (landmarkAt lms 17) (\<lambda>pinkyMCP.
       let palmCenterX = (lx wrist + lx indexMCP + lx pinkyMCP) / 3;
           palmCenterY = (ly wrist + ly indexMCP + ly pinkyMCP) / 3;
           pose = \<lparr>gesture = NONE, x = 1 - palmCenterX, y = palmCenterY,
                   tiltX = (lx indexMCP - lx pinkyMCP) * 10,
                   tiltY = (ly wrist - ly indexMCP) * 5\<rparr>
       in bindE (case world of
                   Some (wl # _) \<Rightarrow> gesture3D wl
                 | _ \<Rightarrow> gesture2D lms wrist)
            (\<lambda>g. Inr (pose\<lparr>gesture := g\<rparr>)))))"

definition processResults :: "HandLandmarkerResult \<Rightarrow> error + HandData" where
  "processResults results =
     (case landmarks results of
        Some (lms # _) \<Rightarrow> processHand lms (worldLandmarks results)
      | _ \<Rightarrow> Inr neutralHandData)"

section \<open>The active photo of the photo cloud (PhotoCloud)\<close>

text \<open>
  The component keeps \<^verbatim>\<open>activePhotoIndex\<close> (initially \<open>-1\<close>, meaning none) and runs
  one effect with the dependency list \<^verbatim>\<open>[appState, photos.length]\<close>. The framework
  runs an effect after the first render and after every later render in which a
  dependency differs from its value at the previous run; \<open>effectDeps\<close> records those
  values (\<open>None\<close> before the first run). \<open>zoomEffect\<close> is the effect's body, with the
  result of \<^verbatim>\<open>Math.random()\<close> as the argument \<open>rnd\<close>; \<open>photoCloudCommit\<close> is one render
  of the component with the given mode and photos.
\<close>

record PhotoCloud =
  activePhotoIndex :: int
  effectDeps :: "(AppState \<times> nat) option"

definition initialPhotoCloud :: PhotoCloud where
  "initialPhotoCloud = \<lparr>activePhotoIndex = - 1, effectDeps = None\<rparr>"

definition zoomEffect :: "real \<Rightarrow> AppState \<Rightarrow> PhotoData list \<Rightarrow> int" where
  "zoomEffect rnd appSt phs =
     (if appSt = ZOOM \<and> length phs > 0 then \<lfloor>rnd * real (length phs)\<rfloor> else - 1)"

definition photoCloudCommit :: "real \<Rightarrow> AppState \<Rightarrow> PhotoData list \<Rightarrow> PhotoCloud \<Rightarrow> PhotoCloud" where
  "photoCloudCommit rnd appSt phs pc =
     (if effectDeps pc = Some (appSt, length phs) then pc
      else \<lparr>activePhotoIndex = zoomEffect rnd appSt phs,
            effectDeps = Some (appSt, length phs)\<rparr>)"

section \<open>Damping\<close>

text \<open>
  Modelled from the spec: the damping step. The particle driver calls the renderer
  library's \<^verbatim>\<open>MathUtils.damp(x, y, lambda, dt)\<close> and the photo driver the animation
  library's \<^verbatim>\<open>easing.damp\<close>; neither body is part of this repository. The spec
  describes the step as the standard exponential decay toward the target, parameterised
  by the frame delta and a rate: the current value moves toward the target by the
  fraction \<open>1 - exp (- lambda * dt)\<close> of the remaining distance.
\<close>

definition damp :: "real \<Rightarrow> real \<Rightarrow> real \<Rightarrow> real \<Rightarrow> real" where
  "damp cur target lambda dt = cur + (target - cur) * (1 - exp (- lambda * dt))"

text \<open>The step iterated over a list of frame deltas, the target and the rate fixed.\<close>

definition dampIter :: "real \<Rightarrow> real \<Rightarrow> real \<Rightarrow> real list \<Rightarrow> real" where
  "dampIter cur target lambda dts = foldl (\<lambda>c dt. damp c target lambda dt) cur dts"

section \<open>The particle driver (Ornaments)\<close>

text \<open>
  \<open>Layout\<close> holds the five typed arrays that the component computes once; \<open>Instance\<close>
  is what one pass of the loop writes for a particle: the position, rotation and scale
  from which \<^verbatim>\<open>tempObject.updateMatrix()\<close> composes the instance matrix, and the colour.
  The arrays are \<^verbatim>\<open>Float32Array\<close>s; the model keeps the exact reals, without the
  rounding to single precision of a store.
\<close>

definition PARTICLE_COUNT :: nat where
  "PARTICLE_COUNT = 150"

record Layout =
  positionsTree :: "real list"
  positionsScatter :: "real list"
  colors :: "real list"
  rotations :: "real list"
  types :: "real list"

record Instance =
  position :: "real \<times> real \<times> real"
  rotation :: "real \<times> real \<times> real"
  scale :: real
  color :: "real \<times> real \<times> real"

text \<open>
  The body of the \<^verbatim>\<open>for\<close> loop of the second \<^verbatim>\<open>useFrame\<close> callback, for particle
  \<open>i\<close>, on the pair of the buffer \<^verbatim>\<open>currentPositions.current\<close> and the mesh's instances.
\<close>

definition particleStep ::
  "AppState \<Rightarrow> Layout \<Rightarrow> real \<Rightarrow> real \<Rightarrow> nat \<Rightarrow> real list \<times> Instance list \<Rightarrow> real list \<times> Instance list" where
  "particleStep appSt L time delta i s =
     (let currentPositions = fst s; mesh = snd s;
          isTree = (appSt = TREE);
          tx = (if isTree then positionsTree L ! (i * 3) else positionsScatter L ! (i * 3));
          ty = (if isTree then positionsTree L ! (i * 3 + 1) else positionsScatter L ! (i * 3 + 1));
          tz = (if isTree then positionsTree L ! (i * 3 + 2) else positionsScatter L ! (i * 3 + 2));
          lambda = (if isTree then 12 else 2);
          cur1 = currentPositions[i * 3 := damp (currentPositions ! (i * 3)) tx lambda delta];
          cur2 = cur1[i * 3 + 1 := damp (cur1 ! (i * 3 + 1)) ty lambda delta];
          cur3 = cur2[i * 3 + 2 := damp (cur2 ! (i * 3 + 2)) tz lambda delta];
          noiseAmt = (if isTree then 0.02 else 0.2);
          ix = cur3 ! (i * 3) + sin (time + real i) * noiseAmt;
          iy = cur3 ! (i * 3 + 1) + cos (time * 0.8 + real i) * noiseAmt;
          iz = cur3 ! (i * 3 + 2) + sin (time * 0.5 + real i) * noiseAmt;
          tempObject =
            \<lparr>position = (ix, iy, iz),
             rotation = (rotations L ! (i * 3) + time * 0.2,
                         rotations L ! (i * 3 + 1) + time * 0.1,
                         rotations L ! (i * 3 + 2)),
             scale = (if types L ! i = 0 then 0.3 else 0.25),
             color = (colors L ! (i * 3), colors L ! (i * 3 + 1), colors L ! (i * 3 + 2))\<rparr>
      in (cur3, mesh[i := tempObject]))"

text \<open>The loop \<^verbatim>\<open>for (let i = 0; i < CONFIG.PARTICLE_COUNT; i++)\<close>, from \<open>i\<close> up to \<open>n\<close>.\<close>

function particleLoop ::
  "AppState \<Rightarrow> Layout \<Rightarrow> real \<Rightarrow> real \<Rightarrow> nat \<Rightarrow> nat \<Rightarrow> real list \<times> Instance list \<Rightarrow> real list \<times> Instance list" where
  "particleLoop appSt L time delta i n s =
     (if i < n then particleLoop appSt L time delta (i + 1) n (particleStep appSt L time delta i s)
      else s)"
  by pat_completeness auto
termination
  by (relation "measure (\<lambda>(appSt, L, time, delta, i, n, s). n - i)") auto

text \<open>
  The callback itself: it returns at once when the mesh is not mounted yet
  (\<^verbatim>\<open>meshRef.current\<close> is null), and runs the loop otherwise.
\<close>

definition ornamentsFrame ::
  "AppState \<Rightarrow> Layout \<Rightarrow> real \<Rightarrow> real \<Rightarrow> real list \<times> Instance list option \<Rightarrow> real list \<times> Instance list option" where
  "ornamentsFrame appSt L time delta s =
     (case snd s of
        None \<Rightarrow> s
      | Some mesh \<Rightarrow>
          (let r = particleLoop appSt L time delta 0 PARTICLE_COUNT (fst s, mesh)
           in (fst r, Some (snd r))))"

section \<open>The specification's vocabulary\<close>

text \<open>
  The definitions of this section follow the words of the specification; the theorems
  below compare the code with them.
\<close>

text \<open>
  The gesture decision: the mean distance of the four non-thumb fingertips (landmarks 8,
  12, 16, 20) to the wrist (landmark 0), the distance of the thumb tip (4) to the index
  tip (8), and the priority order FIST, PINCH, OPEN_HAND, NONE over three thresholds.
\<close>

definition spec_mean4 :: "real \<Rightarrow> real \<Rightarrow> real \<Rightarrow> real \<Rightarrow> real" where
  "spec_mean4 a b c d = (a + b + c + d) / 4"

definition spec_euclid3 :: "Landmark \<Rightarrow> Landmark \<Rightarrow> real" where
  "spec_euclid3 p q = sqrt ((lx p - lx q)\<^sup>2 + (ly p - ly q)\<^sup>2 + (lz p - lz q)\<^sup>2)"

definition spec_euclid2 :: "Landmark \<Rightarrow> Landmark \<Rightarrow> real" where
  "spec_euclid2 p q = sqrt ((lx p - lx q)\<^sup>2 + (ly p - ly q)\<^sup>2)"

definition spec_avgFistDist :: "(Landmark \<Rightarrow> Landmark \<Rightarrow> real) \<Rightarrow> Landmark list \<Rightarrow> real" where
  "spec_avgFistDist d ps = spec_mean4 (d (ps ! 8) (ps ! 0)) (d (ps ! 12) (ps ! 0)) (d (ps ! 16) (ps ! 0)) (d (ps ! 20) (ps ! 0))"

definition spec_pinchDist :: "(Landmark \<Rightarrow> Landmark \<Rightarrow> real) \<Rightarrow> Landmark list \<Rightarrow> real" where
  "spec_pinchDist d ps = d (ps ! 4) (ps ! 8)"

definition spec_gesture :: "real \<Rightarrow> real \<Rightarrow> real \<Rightarrow> real \<Rightarrow> real \<Rightarrow> GestureType" where
  "spec_gesture fistT pinchT openT avgFistDist pinchDist =
     (if avgFistDist < fistT then FIST
      else if pinchDist < pinchT then PINCH
      else if avgFistDist > openT then OPEN_HAND
      else NONE)"

definition spec_label :: "HandLandmarkerResult \<Rightarrow> GestureType" where
  "spec_label r =
     (case landmarks r of
        Some (lms # _) \<Rightarrow>
          (case worldLandmarks r of
             Some (wl # _) \<Rightarrow>
               spec_gesture 0.085 0.035 0.11 (spec_avgFistDist spec_euclid3 wl) (spec_pinchDist spec_euclid3 wl)
           | _ \<Rightarrow>
               spec_gesture 0.3 0.05 0.4 (spec_avgFistDist spec_euclid2 lms) (spec_pinchDist spec_euclid2 lms))
      | _ \<Rightarrow> NONE)"

text \<open>
  The landmark source delivers 21 landmarks for every hand; the classifier reads none
  beyond index 20.
\<close>

definition wellFormed :: "HandLandmarkerResult \<Rightarrow> bool" where
  "wellFormed r =
     ((case landmarks r of Some hs \<Rightarrow> list_all (\<lambda>h. 20 < length h) hs | None \<Rightarrow> True) \<and>
      (case worldLandmarks r of Some hs \<Rightarrow> list_all (\<lambda>h. 20 < length h) hs | None \<Rightarrow> True))"

text \<open>
  A run of the application that consists of upload events only, with no gesture input
  at all: the scenario of the specification's end-to-end test.
\<close>

definition uploadsOnly ::
  "('f \<Rightarrow> string) \<Rightarrow> ('f \<Rightarrow> string) \<Rightarrow> 'f list option list \<Rightarrow> App \<Rightarrow> App" where
  "uploadsOnly rid mkurl events st = foldl (\<lambda>s files. handlePhotoUpload rid mkurl files s) st events"

text \<open>
  The particle layout as the component builds it: three coordinates for each of the
  \<open>PARTICLE_COUNT\<close> particles. The target and the rate of the damping and the amplitude
  of the jitter depend on the mode only; \<open>jittered\<close> is the position rendered for
  particle \<open>i\<close> from a buffer at elapsed time \<open>time\<close>.
\<close>

definition wfLayout :: "Layout \<Rightarrow> bool" where
  "wfLayout L =
     (length (positionsTree L) = PARTICLE_COUNT * 3 \<and>
      length (positionsScatter L) = PARTICLE_COUNT * 3 \<and>
      length (colors L) = PARTICLE_COUNT * 3 \<and>
      length (rotations L) = PARTICLE_COUNT * 3 \<and>
      length (types L) = PARTICLE_COUNT)"

definition targets :: "AppState \<Rightarrow> Layout \<Rightarrow> real list" where
  "targets appSt L = (if appSt = TREE then positionsTree L else positionsScatter L)"

definition rate :: "AppState \<Rightarrow> real" where
  "rate appSt = (if appSt = TREE then 12 else 2)"

definition noise :: "AppState \<Rightarrow> real" where
  "noise appSt = (if appSt = TREE then 0.02 else 0.2)"

definition jittered :: "AppState \<Rightarrow> real \<Rightarrow> nat \<Rightarrow> real list \<Rightarrow> real \<times> real \<times> real" where
  "jittered appSt time i buf =
     (buf ! (i * 3) + sin (time + real i) * noise appSt,
      buf ! (i * 3 + 1) + cos (time * 0.8 + real i) * noise appSt,
      buf ! (i * 3 + 2) + sin (time * 0.5 + real i) * noise appSt)"

text \<open>Sample inputs used to instantiate the theorems.\<close>

definition exampleHand :: "Landmark list" where
  "exampleHand =
     (let z = \<lparr>lx = 0, ly = 0, lz = 0\<rparr>;
          tip = \<lparr>lx = 0.2, ly = 0, lz = 0\<rparr>;
          thumb = \<lparr>lx = 0.2, ly = 0.02, lz = 0\<rparr>
      in [z, z, z, z, thumb, z, z, z, tip, z, z, z, tip, z, z, z, tip, z, z, z, tip])"

definition flatLayout :: Layout where
  "flatLayout = \<lparr>positionsTree = replicate 450 1, positionsScatter = replicate 450 2,
      colors = replicate 450 0, rotations = replicate 450 0, types = replicate 150 0\<rparr>"

definition blankInstance :: Instance where
  "blankInstance = \<lparr>position = (0, 0, 0), rotation = (0, 0, 0), scale = 1, color = (0, 0, 0)\<rparr>"

section \<open>The mode state machine\<close>

text \<open>
  Claim C2. A call of the mode-transition function with gesture FIST: when the mode is
  not TREE, the mode becomes TREE and the timestamp of the last transition becomes
  \<open>now\<close>, whatever the time since the previous transition, and nothing else of the
  state machine changes (the call stores the hand data and returns); when the mode is
  already TREE, mode and timestamp stay as they were.
\<close>

theorem fist_rule:
  "gesture data = FIST \<Longrightarrow>
     (appState st \<noteq> TREE \<longrightarrow>
        handleHandUpdate data now st =
          st\<lparr>handData := data, appState := TREE, lastStateChange := now\<rparr>) \<and>
     (appState st = TREE \<longrightarrow>
        handleHandUpdate data now st = st\<lparr>handData := data\<rparr>)"
  by (simp add: handleHandUpdate_def Let_def)

theorem fist_rule_witness:
  "gesture (initialHandData\<lparr>gesture := FIST\<rparr>) = FIST \<and>
   appState (handleHandUpdate (initialHandData\<lparr>gesture := FIST\<rparr>) 1100
               (initialApp\<lparr>appState := ZOOM, lastStateChange := 1000\<rparr>)) = TREE \<and>
   lastStateChange (handleHandUpdate (initialHandData\<lparr>gesture := FIST\<rparr>) 1100
               (initialApp\<lparr>appState := ZOOM, lastStateChange := 1000\<rparr>)) = 1100 \<and>
   appState (handleHandUpdate (initialHandData\<lparr>gesture := FIST\<rparr>) 1100
               (initialApp\<lparr>lastStateChange := 1000\<rparr>)) = TREE \<and>
   lastStateChange (handleHandUpdate (initialHandData\<lparr>gesture := FIST\<rparr>) 1100
               (initialApp\<lparr>lastStateChange := 1000\<rparr>)) = 1000"
  using fist_rule [of "initialHandData\<lparr>gesture := FIST\<rparr>"
                      "initialApp\<lparr>appState := ZOOM, lastStateChange := 1000\<rparr>" 1100]
        fist_rule [of "initialHandData\<lparr>gesture := FIST\<rparr>"
                      "initialApp\<lparr>lastStateChange := 1000\<rparr>" 1100]
  by (simp add: initialApp_def initialHandData_def)

text \<open>
  Claim C3. A call of the mode-transition function in which the FIST rule does not fire
  (the gesture is not FIST, or the mode is already TREE) and that arrives less than
  500 ms after the last transition leaves the state machine as it was: mode and
  timestamp are unchanged, only the hand data is stored. Consequently, of two OPEN_HAND
  events 100 ms apart that start in TREE, the first moves the mode to SCATTERED at its
  time \<open>t\<close> and the second, arriving inside the window that the first has opened, is
  discarded: there is exactly one transition. This is stated from the initial state
  (timestamp 0, wall-clock time \<open>t\<close> of at least 500 ms), and from every state in TREE
  that the first event finds outside the window of an earlier transition.
\<close>

theorem debounce_gate:
  "(\<not> (gesture data = FIST \<and> appState st \<noteq> TREE) \<longrightarrow> now - lastStateChange st < 500 \<longrightarrow>
      handleHandUpdate data now st = st\<lparr>handData := data\<rparr>) \<and>
   (gesture d1 = OPEN_HAND \<longrightarrow> gesture d2 = OPEN_HAND \<longrightarrow> 500 \<le> t \<longrightarrow>
      handleHandUpdate d1 t initialApp =
        initialApp\<lparr>handData := d1, appState := SCATTERED, lastStateChange := t\<rparr> \<and>
      handleHandUpdate d2 (t + 100) (handleHandUpdate d1 t initialApp) =
        initialApp\<lparr>handData := d2, appState := SCATTERED, lastStateChange := t\<rparr>) \<and>
   (gesture d1 = OPEN_HAND \<longrightarrow> gesture d2 = OPEN_HAND \<longrightarrow> appState st = TREE \<longrightarrow>
    500 \<le> t - lastStateChange st \<longrightarrow>
      handleHandUpdate d1 t st =
        st\<lparr>handData := d1, appState := SCATTERED, lastStateChange := t\<rparr> \<and>
      handleHandUpdate d2 (t + 100) (handleHandUpdate d1 t st) =
        st\<lparr>handData := d2, appState := SCATTERED, lastStateChange := t\<rparr>)"
  by (simp add: handleHandUpdate_def Let_def initialApp_def)

theorem debounce_gate_witness:
  "gesture (initialHandData\<lparr>gesture := OPEN_HAND\<rparr>) = OPEN_HAND \<and>
   appState initialApp = TREE \<and>
   500 \<le> (1000::int) - lastStateChange initialApp \<and>
   \<not> (gesture (initialHandData\<lparr>gesture := OPEN_HAND\<rparr>) = FIST \<and> appState initialApp \<noteq> TREE) \<and>
   (400::int) - lastStateChange initialApp < 500 \<and>
   handleHandUpdate (initialHandData\<lparr>gesture := OPEN_HAND\<rparr>) 400 initialApp =
     initialApp\<lparr>handData := initialHandData\<lparr>gesture := OPEN_HAND\<rparr>\<rparr> \<and>
   handleHandUpdate (initialHandData\<lparr>gesture := OPEN_HAND\<rparr>) 1000 initialApp =
     initialApp\<lparr>handData := initialHandData\<lparr>gesture := OPEN_HAND\<rparr>,
                appState := SCATTERED, lastStateChange := 1000\<rparr> \<and>
   handleHandUpdate (initialHandData\<lparr>gesture := OPEN_HAND\<rparr>) (1000 + 100)
     (handleHandUpdate (initialHandData\<lparr>gesture := OPEN_HAND\<rparr>) 1000 initialApp) =
     initialApp\<lparr>handData := initialHandData\<lparr>gesture := OPEN_HAND\<rparr>,
                appState := SCATTERED, lastStateChange := 1000\<rparr>"
  using debounce_gate [of "initialHandData\<lparr>gesture := OPEN_HAND\<rparr>" initialApp 400
                          "initialHandData\<lparr>gesture := OPEN_HAND\<rparr>"
                          "initialHandData\<lparr>gesture := OPEN_HAND\<rparr>" 1000]
  by (simp add: initialApp_def initialHandData_def handleHandUpdate_def Let_def)

text \<open>
  Claim C4. A call with gesture PINCH while the mode is SCATTERED and at least 500 ms
  after the last transition: with at least one photo the mode becomes ZOOM and the
  timestamp becomes \<open>now\<close>; with no photo the mode and the timestamp are unchanged.
  The handler is a total function into states: no error value exists for it to return.
\<close>

theorem pinch_rule:
  "gesture data = PINCH \<Longrightarrow> appState st = SCATTERED \<Longrightarrow> 500 \<le> now - lastStateChange st \<Longrightarrow>
     (0 < length (photos st) \<longrightarrow>
        handleHandUpdate data now st =
          st\<lparr>handData := data, appState := ZOOM, lastStateChange := now\<rparr>) \<and>
     (length (photos st) = 0 \<longrightarrow>
        handleHandUpdate data now st = st\<lparr>handData := data\<rparr>)"
  by (simp add: handleHandUpdate_def Let_def)

theorem pinch_rule_witness:
  "gesture (initialHandData\<lparr>gesture := PINCH\<rparr>) = PINCH \<and>
   appState (initialApp\<lparr>appState := SCATTERED\<rparr>) = SCATTERED \<and>
   500 \<le> (2000::int) - lastStateChange (initialApp\<lparr>appState := SCATTERED\<rparr>) \<and>
   length (photos (initialApp\<lparr>appState := SCATTERED\<rparr>)) = 0 \<and>
   handleHandUpdate (initialHandData\<lparr>gesture := PINCH\<rparr>) 2000
       (initialApp\<lparr>appState := SCATTERED\<rparr>) =
     initialApp\<lparr>appState := SCATTERED, handData := initialHandData\<lparr>gesture := PINCH\<rparr>\<rparr> \<and>
   0 < length (photos (initialApp\<lparr>appState := SCATTERED,
                 photos := [\<lparr>id = ''a'', url = ''u'', aspectRatio = 1\<rparr>]\<rparr>)) \<and>
   appState (handleHandUpdate (initialHandData\<lparr>gesture := PINCH\<rparr>) 2000
       (initialApp\<lparr>appState := SCATTERED,
                 photos := [\<lparr>id = ''a'', url = ''u'', aspectRatio = 1\<rparr>]\<rparr>)) = ZOOM \<and>
   lastStateChange (handleHandUpdate (initialHandData\<lparr>gesture := PINCH\<rparr>) 2000
       (initialApp\<lparr>appState := SCATTERED,
                 photos := [\<lparr>id = ''a'', url = ''u'', aspectRatio = 1\<rparr>]\<rparr>)) = 2000"
  using pinch_rule [of "initialHandData\<lparr>gesture := PINCH\<rparr>"
                       "initialApp\<lparr>appState := SCATTERED\<rparr>" 2000]
        pinch_rule [of "initialHandData\<lparr>gesture := PINCH\<rparr>"
                       "initialApp\<lparr>appState := SCATTERED,
                          photos := [\<lparr>id = ''a'', url = ''u'', aspectRatio = 1\<rparr>]\<rparr>" 2000]
  by (simp add: initialApp_def initialHandData_def)

lemma upload_tree_empty:
  "(appState st = TREE \<longrightarrow> photos st = []) \<Longrightarrow>
   appState (handlePhotoUpload rid mkurl files st) = TREE \<longrightarrow>
   photos (handlePhotoUpload rid mkurl files st) = []"
  by (cases files) (simp_all add: handlePhotoUpload_def Let_def)

lemma uploadsOnly_tree_empty:
  "appState (uploadsOnly rid mkurl events initialApp) = TREE \<longrightarrow>
   photos (uploadsOnly rid mkurl events initialApp) = []"
proof (induction events rule: rev_induct)
  case Nil
  show ?case by (simp add: uploadsOnly_def initialApp_def)
next
  case (snoc files events)
  have "uploadsOnly rid mkurl (events @ [files]) initialApp =
        handlePhotoUpload rid mkurl files (uploadsOnly rid mkurl events initialApp)"
    by (simp add: uploadsOnly_def)
  with upload_tree_empty [OF snoc.IH] show ?case by simp
qed

text \<open>
  Claim C5. Uploading a non-empty list of files while the mode is TREE appends the new
  photos and sets the mode to SCATTERED in the same call, without reading or writing the
  hand data; in any other mode the photos are appended and the mode stays. Uploading
  three files in TREE gives mode SCATTERED and three more photos; in a run without
  gesture input the mode is TREE only as long as there is no photo, so the photo count
  is then exactly 3.
\<close>

theorem upload_nudge:
  "(fs \<noteq> [] \<longrightarrow> appState st = TREE \<longrightarrow>
      handlePhotoUpload rid mkurl (Some fs) st =
        st\<lparr>photos := photos st @ map (newPhoto rid mkurl) fs, appState := SCATTERED\<rparr>) \<and>
   (fs \<noteq> [] \<longrightarrow> appState st \<noteq> TREE \<longrightarrow>
      handlePhotoUpload rid mkurl (Some fs) st =
        st\<lparr>photos := photos st @ map (newPhoto rid mkurl) fs\<rparr>) \<and>
   (length fs = 3 \<longrightarrow> appState st = TREE \<longrightarrow>
      appState (handlePhotoUpload rid mkurl (Some fs) st) = SCATTERED \<and>
      length (photos (handlePhotoUpload rid mkurl (Some fs) st)) = length (photos st) + 3) \<and>
   (length fs = 3 \<longrightarrow> appState (uploadsOnly rid mkurl events initialApp) = TREE \<longrightarrow>
      appState (handlePhotoUpload rid mkurl (Some fs) (uploadsOnly rid mkurl events initialApp))
        = SCATTERED \<and>
      length (photos (handlePhotoUpload rid mkurl (Some fs) (uploadsOnly rid mkurl events initialApp)))
        = 3)"
  using uploadsOnly_tree_empty [of rid mkurl events]
  by (simp add: handlePhotoUpload_def Let_def)

theorem upload_nudge_witness:
  "[''a.png'', ''b.png'', ''c.png''] \<noteq> [] \<and>
   length [''a.png'', ''b.png'', ''c.png''] = 3 \<and>
   appState (uploadsOnly (\<lambda>f. f) (\<lambda>f. f) [None] initialApp) = TREE \<and>
   appState (handlePhotoUpload (\<lambda>f. f) (\<lambda>f. f) (Some [''a.png'', ''b.png'', ''c.png''])
       (uploadsOnly (\<lambda>f. f) (\<lambda>f. f) [None] initialApp)) = SCATTERED \<and>
   length (photos (handlePhotoUpload (\<lambda>f. f) (\<lambda>f. f) (Some [''a.png'', ''b.png'', ''c.png''])
       (uploadsOnly (\<lambda>f. f) (\<lambda>f. f) [None] initialApp))) = 3 \<and>
   appState (initialApp\<lparr>appState := ZOOM\<rparr>) \<noteq> TREE \<and>
   appState (handlePhotoUpload (\<lambda>f. f) (\<lambda>f. f) (Some [''a.png'', ''b.png'', ''c.png''])
       (initialApp\<lparr>appState := ZOOM\<rparr>)) = ZOOM"
proof -
  have t: "appState (uploadsOnly (\<lambda>f. f) (\<lambda>f. f) [None :: string list option] initialApp) = TREE"
    by (simp add: uploadsOnly_def handlePhotoUpload_def initialApp_def)
  from upload_nudge [of "[''a.png'', ''b.png'', ''c.png'']" "initialApp\<lparr>appState := ZOOM\<rparr>"
                        "\<lambda>f. f" "\<lambda>f. f" "[None]"] t
  show ?thesis by (simp add: initialApp_def)
qed

text \<open>
  Claim C10. The upload handler never writes the timestamp of the last transition, also
  when it forces TREE to SCATTERED. A gesture event after such an upload is therefore
  gated by the time since the last gesture-induced transition only: FIST returns to TREE
  at once; PINCH with a photo present enters ZOOM as soon as 500 ms have passed since
  that earlier transition, however recent the upload; and an event is discarded by the
  gate only when it is within 500 ms of that earlier transition.
\<close>

theorem upload_keeps_clock:
  "lastStateChange (handlePhotoUpload rid mkurl files st) = lastStateChange st \<and>
   (appState st = TREE \<longrightarrow> files = Some fs \<longrightarrow>
      (gesture data = FIST \<longrightarrow>
         handleHandUpdate data now (handlePhotoUpload rid mkurl files st) =
           (handlePhotoUpload rid mkurl files st)
             \<lparr>handData := data, appState := TREE, lastStateChange := now\<rparr>) \<and>
      (gesture data = PINCH \<longrightarrow> fs \<noteq> [] \<longrightarrow> 500 \<le> now - lastStateChange st \<longrightarrow>
         handleHandUpdate data now (handlePhotoUpload rid mkurl files st) =
           (handlePhotoUpload rid mkurl files st)
             \<lparr>handData := data, appState := ZOOM, lastStateChange := now\<rparr>) \<and>
      (gesture data \<noteq> FIST \<longrightarrow> now - lastStateChange st < 500 \<longrightarrow>
         handleHandUpdate data now (handlePhotoUpload rid mkurl files st) =
           (handlePhotoUpload rid mkurl files st)\<lparr>handData := data\<rparr>))"
  by (cases files) (simp_all add: handlePhotoUpload_def handleHandUpdate_def Let_def)

theorem upload_keeps_clock_witness:
  "appState (initialApp\<lparr>lastStateChange := 1000\<rparr>) = TREE \<and>
   gesture (initialHandData\<lparr>gesture := PINCH\<rparr>) = PINCH \<and>
   [''a.png''] \<noteq> [] \<and>
   500 \<le> (1500::int) - lastStateChange (initialApp\<lparr>lastStateChange := 1000\<rparr>) \<and>
   lastStateChange (handlePhotoUpload (\<lambda>f. f) (\<lambda>f. f) (Some [''a.png''])
      (initialApp\<lparr>lastStateChange := 1000\<rparr>)) = 1000 \<and>
   appState (handleHandUpdate (initialHandData\<lparr>gesture := PINCH\<rparr>) 1500
      (handlePhotoUpload (\<lambda>f. f) (\<lambda>f. f) (Some [''a.png''])
         (initialApp\<lparr>lastStateChange := 1000\<rparr>))) = ZOOM \<and>
   (1499::int) - lastStateChange (initialApp\<lparr>lastStateChange := 1000\<rparr>) < 500 \<and>
   appState (handleHandUpdate (initialHandData\<lparr>gesture := PINCH\<rparr>) 1499
      (handlePhotoUpload (\<lambda>f. f) (\<lambda>f. f) (Some [''a.png''])
         (initialApp\<lparr>lastStateChange := 1000\<rparr>))) = SCATTERED"
  using upload_keeps_clock [of "\<lambda>f. f" "\<lambda>f. f" "Some [''a.png'']"
          "initialApp\<lparr>lastStateChange := 1000\<rparr>" "[''a.png'']"
          "initialHandData\<lparr>gesture := PINCH\<rparr>" 1500]
        upload_keeps_clock [of "\<lambda>f. f" "\<lambda>f. f" "Some [''a.png'']"
          "initialApp\<lparr>lastStateChange := 1000\<rparr>" "[''a.png'']"
          "initialHandData\<lparr>gesture := PINCH\<rparr>" 1499]
  by (simp add: initialApp_def initialHandData_def handlePhotoUpload_def handleHandUpdate_def Let_def)

section \<open>The gesture classifier\<close>

lemma landmarkAt_ok: "20 < length xs \<Longrightarrow> i \<le> 20 \<Longrightarrow> landmarkAt xs i = Inr (xs ! i)"
  by (simp add: landmarkAt_def)

lemma gesture3D_ok:
  "20 < length wl \<Longrightarrow>
   gesture3D wl = Inr (spec_gesture 0.085 0.035 0.11 (spec_avgFistDist spec_euclid3 wl) (spec_pinchDist spec_euclid3 wl))"
  by (simp add: gesture3D_def landmarkAt_ok bindE_def Let_def spec_gesture_def spec_avgFistDist_def
        spec_pinchDist_def spec_mean4_def spec_euclid3_def dist3D_def)

lemma gesture2D_ok:
  "20 < length lms \<Longrightarrow>
   gesture2D lms (lms ! 0) = Inr (spec_gesture 0.3 0.05 0.4 (spec_avgFistDist spec_euclid2 lms) (spec_pinchDist spec_euclid2 lms))"
  by (simp add: gesture2D_def landmarkAt_ok bindE_def Let_def spec_gesture_def spec_avgFistDist_def
        spec_pinchDist_def spec_mean4_def spec_euclid2_def dist2D_def)

lemma process_label:
  assumes "wellFormed r" and "landmarks r = Some (lms # rest)"
  shows "\<exists>h. processResults r = Inr h \<and> gesture h = spec_label r"
proof -
  from assms have l: "20 < length lms" by (simp add: wellFormed_def)
  show ?thesis
  proof (cases "worldLandmarks r")
    case None
    with assms l show ?thesis
      by (simp add: processResults_def processHand_def landmarkAt_ok bindE_def Let_def
            gesture2D_ok spec_label_def)
  next
    case (Some ws)
    show ?thesis
    proof (cases ws)
      case Nil
      with Some assms l show ?thesis
        by (simp add: processResults_def processHand_def landmarkAt_ok bindE_def Let_def
              gesture2D_ok spec_label_def)
    next
      case (Cons wl wrest)
      with Some assms have "20 < length wl" by (simp add: wellFormed_def)
      with Cons Some assms l show ?thesis
        by (simp add: processResults_def processHand_def landmarkAt_ok bindE_def Let_def
              gesture3D_ok spec_label_def)
    qed
  qed
qed

lemma spec_euclid3_axis:
  "ly p = ly q \<Longrightarrow> lz p = lz q \<Longrightarrow> spec_euclid3 p q = \<bar>lx p - lx q\<bar>"
  by (simp add: spec_euclid3_def)

lemma spec_euclid3_axis_y:
  "lx p = lx q \<Longrightarrow> lz p = lz q \<Longrightarrow> spec_euclid3 p q = \<bar>ly p - ly q\<bar>"
  by (simp add: spec_euclid3_def)

text \<open>
  Claim C1. For every frame with a detected hand, the classifier delivers a hand update
  whose gesture is the first matching rule of the priority order: with world landmarks,
  FIST if the mean 3D distance of the four non-thumb fingertips to the wrist is below
  0.085, else PINCH if the 3D distance of thumb tip and index tip is below 0.035, else
  OPEN_HAND if that mean is above 0.11, else NONE; without world landmarks the same order
  on the 2D distances with the thresholds 0.3, 0.05 and 0.4. In particular, world
  landmarks with mean fingertip distance 0.2 and thumb-index distance 0.02 give PINCH,
  not FIST: the example is the one of the specification's tests, stated against the 3D
  thresholds 0.085 and 0.035.
\<close>

theorem classifier_priority:
  assumes "wellFormed r" and "landmarks r = Some (lms # rest)"
  shows "\<exists>h. processResults r = Inr h \<and>
           (\<forall>wl wrest. worldLandmarks r = Some (wl # wrest) \<longrightarrow>
              gesture h = spec_gesture 0.085 0.035 0.11
                            (spec_avgFistDist spec_euclid3 wl) (spec_pinchDist spec_euclid3 wl)) \<and>
           (worldLandmarks r = None \<or> worldLandmarks r = Some [] \<longrightarrow>
              gesture h = spec_gesture 0.3 0.05 0.4
                            (spec_avgFistDist spec_euclid2 lms) (spec_pinchDist spec_euclid2 lms)) \<and>
           (\<forall>wl wrest. worldLandmarks r = Some (wl # wrest) \<longrightarrow>
              spec_avgFistDist spec_euclid3 wl = 0.2 \<longrightarrow> spec_pinchDist spec_euclid3 wl = 0.02 \<longrightarrow>
              gesture h = PINCH)"
proof -
  from process_label [OF assms] obtain h
    where h: "processResults r = Inr h" and g: "gesture h = spec_label r"
    by blast
  have world: "gesture h = spec_gesture 0.085 0.035 0.11
                  (spec_avgFistDist spec_euclid3 wl) (spec_pinchDist spec_euclid3 wl)"
    if "worldLandmarks r = Some (wl # wrest)" for wl wrest
    using that assms(2) g by (simp add: spec_label_def)
  have screen: "gesture h = spec_gesture 0.3 0.05 0.4
                  (spec_avgFistDist spec_euclid2 lms) (spec_pinchDist spec_euclid2 lms)"
    if "worldLandmarks r = None \<or> worldLandmarks r = Some []"
    using that assms(2) g by (auto simp add: spec_label_def)
  have example: "gesture h = PINCH"
    if "worldLandmarks r = Some (wl # wrest)"
      and "spec_avgFistDist spec_euclid3 wl = 0.2" and "spec_pinchDist spec_euclid3 wl = 0.02"
    for wl wrest
    using world [OF that(1)] that(2,3) by (simp add: spec_gesture_def)
  from h world screen example show ?thesis by blast
qed

lemma exampleHand_dists:
  "spec_avgFistDist spec_euclid3 exampleHand = 0.2" "spec_pinchDist spec_euclid3 exampleHand = 0.02"
  by (simp_all add: exampleHand_def Let_def spec_avgFistDist_def spec_pinchDist_def spec_mean4_def
        spec_euclid3_axis spec_euclid3_axis_y)

theorem classifier_priority_witness:
  "wellFormed \<lparr>landmarks = Some [exampleHand], worldLandmarks = Some [exampleHand]\<rparr> \<and>
   spec_avgFistDist spec_euclid3 exampleHand = 0.2 \<and>
   spec_pinchDist spec_euclid3 exampleHand = 0.02 \<and>
   (\<exists>h. processResults \<lparr>landmarks = Some [exampleHand], worldLandmarks = Some [exampleHand]\<rparr> = Inr h
        \<and> gesture h = PINCH)"
proof -
  have w: "wellFormed \<lparr>landmarks = Some [exampleHand], worldLandmarks = Some [exampleHand]\<rparr>"
    by (simp add: wellFormed_def exampleHand_def Let_def)
  have l: "landmarks \<lparr>landmarks = Some [exampleHand], worldLandmarks = Some [exampleHand]\<rparr>
             = Some (exampleHand # [])" by simp
  have v: "worldLandmarks \<lparr>landmarks = Some [exampleHand], worldLandmarks = Some [exampleHand]\<rparr>
             = Some (exampleHand # [])" by simp
  from classifier_priority [OF w l] v exampleHand_dists
  have "\<exists>h. processResults \<lparr>landmarks = Some [exampleHand], worldLandmarks = Some [exampleHand]\<rparr> = Inr h
        \<and> gesture h = PINCH"
    by blast
  with w exampleHand_dists show ?thesis by simp
qed

text \<open>
  Claim C6. For every frame in which no hand is detected (the list of hands is absent
  or empty), the classifier delivers gesture NONE with the neutral pose: x and y are 0.5,
  both tilts are 0.
\<close>

theorem no_hand_neutral:
  "landmarks r = None \<or> landmarks r = Some [] \<Longrightarrow>
   processResults r = Inr \<lparr>gesture = NONE, x = 0.5, y = 0.5, tiltX = 0, tiltY = 0\<rparr>"
  by (auto simp add: processResults_def neutralHandData_def)

theorem no_hand_neutral_witness:
  "landmarks \<lparr>landmarks = Some [], worldLandmarks = Some [exampleHand]\<rparr> = Some [] \<and>
   processResults \<lparr>landmarks = Some [], worldLandmarks = Some [exampleHand]\<rparr> =
     Inr \<lparr>gesture = NONE, x = 0.5, y = 0.5, tiltX = 0, tiltY = 0\<rparr> \<and>
   landmarks \<lparr>landmarks = None, worldLandmarks = None\<rparr> = None \<and>
   processResults \<lparr>landmarks = None, worldLandmarks = None\<rparr> =
     Inr \<lparr>gesture = NONE, x = 0.5, y = 0.5, tiltX = 0, tiltY = 0\<rparr>"
  using no_hand_neutral [of "\<lparr>landmarks = Some [], worldLandmarks = Some [exampleHand]\<rparr>"]
        no_hand_neutral [of "\<lparr>landmarks = None, worldLandmarks = None\<rparr>"]
  by simp

section \<open>The active photo\<close>

text \<open>
  Claim C8. The selection is to change only on entry into ZOOM, where a random photo is
  picked, and on exit from ZOOM, where it is cleared; the comment above the effect says
  as much (\<^verbatim>\<open>Cycle active photo when entering ZOOM state\<close>). The code does not keep
  to it: the effect also runs when the number of photos changes. The first conjunct
  below is the entry into ZOOM with one photo, which selects index 0; the upload of one
  more photo then keeps the mode ZOOM, and the render that follows replaces the selection
  0 by 1 although ZOOM is neither entered nor left.
\<close>

theorem selection_repicked_during_zoom:
  "photoCloudCommit 0 ZOOM [\<lparr>id = ''a'', url = ''u'', aspectRatio = 1\<rparr>]
      \<lparr>activePhotoIndex = - 1, effectDeps = Some (SCATTERED, 1)\<rparr>
     = \<lparr>activePhotoIndex = 0, effectDeps = Some (ZOOM, 1)\<rparr> \<and>
   appState (initialApp\<lparr>appState := ZOOM, photos := [\<lparr>id = ''a'', url = ''u'', aspectRatio = 1\<rparr>]\<rparr>) = ZOOM \<and>
   appState (handlePhotoUpload (\<lambda>f. f) (\<lambda>f. f) (Some [''b''])
      (initialApp\<lparr>appState := ZOOM, photos := [\<lparr>id = ''a'', url = ''u'', aspectRatio = 1\<rparr>]\<rparr>)) = ZOOM \<and>
   activePhotoIndex
     (photoCloudCommit (1/2) ZOOM
        (photos (handlePhotoUpload (\<lambda>f. f) (\<lambda>f. f) (Some [''b''])
           (initialApp\<lparr>appState := ZOOM, photos := [\<lparr>id = ''a'', url = ''u'', aspectRatio = 1\<rparr>]\<rparr>)))
        \<lparr>activePhotoIndex = 0, effectDeps = Some (ZOOM, 1)\<rparr>) = 1"
  by (simp add: photoCloudCommit_def zoomEffect_def handlePhotoUpload_def initialApp_def Let_def)

text \<open>
  On entry into ZOOM and on exit from it the effect does what its comment says: coming
  from another mode with the same photos, it selects an index among them; leaving ZOOM,
  it clears the selection; and a render that changes neither the mode nor the number of
  photos leaves the selection alone.
\<close>

lemma selection_entry_exit:
  assumes "0 \<le> rnd" and "rnd < 1"
  shows "(effectDeps pc = Some (appSt, length phs) \<longrightarrow> photoCloudCommit rnd appSt phs pc = pc) \<and>
         (effectDeps pc = Some (before, length phs) \<longrightarrow> before \<noteq> ZOOM \<longrightarrow> phs \<noteq> [] \<longrightarrow>
            0 \<le> activePhotoIndex (photoCloudCommit rnd ZOOM phs pc) \<and>
            activePhotoIndex (photoCloudCommit rnd ZOOM phs pc) < int (length phs)) \<and>
         (effectDeps pc = Some (ZOOM, n) \<longrightarrow> appSt \<noteq> ZOOM \<longrightarrow>
            activePhotoIndex (photoCloudCommit rnd appSt phs pc) = - 1)"
proof -
  have "rnd * real (length phs) < real (length phs)" if "phs \<noteq> []"
    using that assms by simp
  then have "\<lfloor>rnd * real (length phs)\<rfloor> < int (length phs)" if "phs \<noteq> []"
    using that by (simp add: floor_less_iff)
  moreover have "0 \<le> \<lfloor>rnd * real (length phs)\<rfloor>"
    using assms by simp
  ultimately show ?thesis
    by (auto simp add: photoCloudCommit_def zoomEffect_def)
qed

section \<open>Damping\<close>

lemma damp_closed: "damp c tgt lam dt = tgt + (c - tgt) * exp (- lam * dt)"
  by (simp add: damp_def algebra_simps)

lemma damp_split: "damp (damp c tgt lam t1) tgt lam t2 = damp c tgt lam (t1 + t2)"
proof -
  have "- lam * (t1 + t2) = - lam * t1 + - lam * t2"
    by (simp add: ring_distribs)
  then have "exp (- lam * (t1 + t2)) = exp (- lam * t1) * exp (- lam * t2)"
    by (simp only: exp_add)
  then show ?thesis by (simp add: damp_closed)
qed

lemma damp_zero: "damp c tgt lam 0 = c"
  by (simp add: damp_def)

lemma dampIter_sum: "dampIter c tgt lam dts = damp c tgt lam (sum_list dts)"
proof (induction dts arbitrary: c)
  case Nil
  show ?case by (simp add: dampIter_def damp_zero)
next
  case (Cons dt dts)
  have "dampIter c tgt lam (dt # dts) = dampIter (damp c tgt lam dt) tgt lam dts"
    by (simp add: dampIter_def)
  also have "\<dots> = damp (damp c tgt lam dt) tgt lam (sum_list dts)" by (rule Cons.IH)
  also have "\<dots> = damp c tgt lam (dt + sum_list dts)" by (rule damp_split)
  finally show ?case by simp
qed

lemma damp_tendsto:
  assumes "0 < lam" and "filterlim s at_top F"
  shows "((\<lambda>n. damp c tgt lam (s n)) \<longlongrightarrow> tgt) F"
proof -
  have "filterlim (\<lambda>n. lam * s n) at_top F"
    using assms by (simp add: filterlim_tendsto_pos_mult_at_top [OF tendsto_const])
  then have "filterlim (\<lambda>n. - (lam * s n)) at_bot F"
    by (simp add: filterlim_uminus_at_bot)
  then have "((\<lambda>n. exp (- (lam * s n))) \<longlongrightarrow> 0) F"
    by (rule filterlim_compose [OF exp_at_bot])
  then have "((\<lambda>n. tgt + (c - tgt) * exp (- (lam * s n))) \<longlongrightarrow> tgt + (c - tgt) * 0) F"
    by (intro tendsto_intros)
  then show ?thesis by (simp add: damp_closed)
qed

text \<open>
  Claim C7. The exponential damping step is invariant under splitting a time step:
  one step of \<open>t1 + t2\<close> gives the result of a step of \<open>t1\<close> followed by a step of
  \<open>t2\<close>, so a run over any list of frame deltas equals one step over their sum, whatever
  the frame rate. With a positive rate, the iterates converge to the target along any
  sequence of steps whose total elapsed time tends to infinity.
\<close>

theorem damp_split_converge:
  "damp (damp c tgt lam t1) tgt lam t2 = damp c tgt lam (t1 + t2) \<and>
   dampIter c tgt lam dts = damp c tgt lam (sum_list dts) \<and>
   (0 < lam \<longrightarrow> filterlim (\<lambda>n. sum_list (map d [0..<n])) at_top sequentially \<longrightarrow>
      (\<lambda>n. dampIter c tgt lam (map d [0..<n])) \<longlonglongrightarrow> tgt)"
  by (simp add: damp_split dampIter_sum damp_tendsto)

lemma sum_const_steps: "sum_list (map (\<lambda>i. 1::real) [0..<n]) = real n"
  by (induction n) simp_all

theorem damp_split_converge_witness:
  "(0::real) < 12 \<and>
   filterlim (\<lambda>n. sum_list (map (\<lambda>i. 1::real) [0..<n])) at_top sequentially \<and>
   damp (damp 0 1 12 (1/60)) 1 12 (1/30) = damp 0 1 12 (1/60 + 1/30) \<and>
   dampIter 0 1 12 [1/60, 1/30] = damp 0 1 12 (sum_list [1/60, 1/30]) \<and>
   (\<lambda>n. dampIter 0 1 12 (map (\<lambda>i. 1) [0..<n])) \<longlonglongrightarrow> 1"
proof -
  have f: "filterlim (\<lambda>n. sum_list (map (\<lambda>i. 1::real) [0..<n])) at_top sequentially"
    by (simp add: sum_const_steps filterlim_real_sequentially)
  from damp_split_converge [of 0 1 12 "1/60" "1/30" "[1/60, 1/30]" "\<lambda>i. 1"] f
  show ?thesis by simp
qed

section \<open>The particle driver\<close>

declare particleLoop.simps [simp del]

lemma step_fst:
  "fst (particleStep appSt L time delta i (c, m)) =
     c[i * 3 := damp (c ! (i * 3)) (targets appSt L ! (i * 3)) (rate appSt) delta,
       i * 3 + 1 := damp (c ! (i * 3 + 1)) (targets appSt L ! (i * 3 + 1)) (rate appSt) delta,
       i * 3 + 2 := damp (c ! (i * 3 + 2)) (targets appSt L ! (i * 3 + 2)) (rate appSt) delta]"
  by (simp add: particleStep_def Let_def targets_def rate_def)

lemma step_fst_nth:
  assumes "i * 3 + 2 < length c"
  shows "fst (particleStep appSt L time delta i (c, m)) ! k =
     (if i * 3 \<le> k \<and> k < i * 3 + 3 then damp (c ! k) (targets appSt L ! k) (rate appSt) delta
      else c ! k)"
proof -
  consider "k = i * 3" | "k = i * 3 + 1" | "k = i * 3 + 2" | "k < i * 3 \<or> i * 3 + 3 \<le> k"
    by linarith
  then show ?thesis
    using assms by cases (auto simp add: step_fst nth_list_update)
qed

lemma step_length: "length (fst (particleStep appSt L time delta i (c, m))) = length c"
  by (simp add: step_fst)

lemma loop_fst_nth:
  "length (fst s) = n * 3 \<Longrightarrow>
   length (fst (particleLoop appSt L time delta i n s)) = n * 3 \<and>
   fst (particleLoop appSt L time delta i n s) ! k =
     (if i * 3 \<le> k \<and> k < n * 3 then damp (fst s ! k) (targets appSt L ! k) (rate appSt) delta
      else fst s ! k)"
proof (induction appSt L time delta i n s rule: particleLoop.induct)
  case (1 appSt L time delta i n s)
  obtain c m where s: "s = (c, m)" by (cases s)
  show ?case
  proof (cases "i < n")
    case False
    then show ?thesis using "1.prems" by (simp add: particleLoop.simps [of _ _ _ _ i n])
  next
    case True
    let ?s' = "particleStep appSt L time delta i s"
    have len: "length (fst ?s') = n * 3" using "1.prems" s by (simp add: step_length)
    have in_range: "i * 3 + 2 < length c" using True "1.prems" s by simp
    from "1.IH" [OF True len]
    have ih_len: "length (fst (particleLoop appSt L time delta (i + 1) n ?s')) = n * 3"
      and ih_nth: "fst (particleLoop appSt L time delta (i + 1) n ?s') ! k =
        (if (i + 1) * 3 \<le> k \<and> k < n * 3
         then damp (fst ?s' ! k) (targets appSt L ! k) (rate appSt) delta
         else fst ?s' ! k)"
      by simp_all
    have unf: "particleLoop appSt L time delta i n s = particleLoop appSt L time delta (i + 1) n ?s'"
      using True by (simp add: particleLoop.simps [of _ _ _ _ i n])
    have old: "fst ?s' ! k =
        (if i * 3 \<le> k \<and> k < i * 3 + 3 then damp (c ! k) (targets appSt L ! k) (rate appSt) delta
         else c ! k)"
      unfolding s by (rule step_fst_nth [OF in_range])
    have "fst (particleLoop appSt L time delta i n s) ! k =
        (if i * 3 \<le> k \<and> k < n * 3 then damp (fst s ! k) (targets appSt L ! k) (rate appSt) delta
         else fst s ! k)"
      unfolding unf ih_nth old using True s by auto
    with ih_len unf show ?thesis by simp
  qed
qed

lemma step_snd_length: "length (snd (particleStep appSt L time delta i s)) = length (snd s)"
  by (simp add: particleStep_def Let_def)

lemma step_snd_other: "j \<noteq> i \<Longrightarrow> snd (particleStep appSt L time delta i s) ! j = snd s ! j"
  by (simp add: particleStep_def Let_def)

lemma step_position:
  "i < length (snd s) \<Longrightarrow>
   position (snd (particleStep appSt L time delta i s) ! i) =
     jittered appSt time i (fst (particleStep appSt L time delta i s))"
  by (simp add: particleStep_def Let_def jittered_def noise_def)

lemma loop_snd_length:
  "length (snd (particleLoop appSt L time delta i n s)) = length (snd s)"
proof (induction appSt L time delta i n s rule: particleLoop.induct)
  case (1 appSt L time delta i n s)
  show ?case
  proof (cases "i < n")
    case False
    then show ?thesis by (simp add: particleLoop.simps [of _ _ _ _ i n])
  next
    case True
    have "particleLoop appSt L time delta i n s =
          particleLoop appSt L time delta (i + 1) n (particleStep appSt L time delta i s)"
      using True by (simp add: particleLoop.simps [of _ _ _ _ i n])
    with "1.IH" [OF True] show ?thesis by (simp add: step_snd_length)
  qed
qed

lemma loop_snd_below:
  "j < i \<Longrightarrow> snd (particleLoop appSt L time delta i n s) ! j = snd s ! j"
proof (induction appSt L time delta i n s rule: particleLoop.induct)
  case (1 appSt L time delta i n s)
  show ?case
  proof (cases "i < n")
    case False
    then show ?thesis by (simp add: particleLoop.simps [of _ _ _ _ i n])
  next
    case True
    have unf: "particleLoop appSt L time delta i n s =
          particleLoop appSt L time delta (i + 1) n (particleStep appSt L time delta i s)"
      using True by (simp add: particleLoop.simps [of _ _ _ _ i n])
    from "1.prems" have "j < i + 1" and "j \<noteq> i" by simp_all
    with "1.IH" [OF True] show ?thesis unfolding unf by (simp add: step_snd_other)
  qed
qed

lemma jittered_cong:
  "a ! (i * 3) = b ! (i * 3) \<Longrightarrow> a ! (i * 3 + 1) = b ! (i * 3 + 1) \<Longrightarrow>
   a ! (i * 3 + 2) = b ! (i * 3 + 2) \<Longrightarrow> jittered appSt time i a = jittered appSt time i b"
  by (simp add: jittered_def)

lemma loop_position:
  assumes "length (fst s) = n * 3" and "length (snd s) = n" and "i \<le> j" and "j < n"
  shows "position (snd (particleLoop appSt L time delta i n s) ! j) =
           jittered appSt time j (fst (particleLoop appSt L time delta i n s))"
  using assms
proof (induction appSt L time delta i n s rule: particleLoop.induct)
  case (1 appSt L time delta i n s)
  let ?s' = "particleStep appSt L time delta i s"
  from "1.prems" have lt: "i < n" by simp
  have unf: "particleLoop appSt L time delta i n s = particleLoop appSt L time delta (i + 1) n ?s'"
    using lt by (simp add: particleLoop.simps [of _ _ _ _ i n])
  obtain c m where s: "s = (c, m)" by (cases s)
  have len1: "length (fst ?s') = n * 3" using "1.prems" s by (simp add: step_length)
  have len2: "length (snd ?s') = n" using "1.prems" by (simp add: step_snd_length)
  show ?case
  proof (cases "j = i")
    case False
    with "1.prems" have "i + 1 \<le> j" by simp
    from "1.IH" [OF lt len1 len2 this "1.prems"(4)] show ?thesis unfolding unf .
  next
    case True
    have below: "snd (particleLoop appSt L time delta (i + 1) n ?s') ! i = snd ?s' ! i"
      by (rule loop_snd_below) simp
    have pos: "position (snd ?s' ! i) = jittered appSt time i (fst ?s')"
      using lt "1.prems" by (simp add: step_position)
    have same: "fst (particleLoop appSt L time delta (i + 1) n ?s') ! k = fst ?s' ! k"
      if "k < (i + 1) * 3" for k
      using loop_fst_nth [OF len1, of appSt L time delta "i + 1" k] that by simp
    have "jittered appSt time i (fst (particleLoop appSt L time delta (i + 1) n ?s')) =
          jittered appSt time i (fst ?s')"
      by (rule jittered_cong) (rule same, simp)+
    with below pos True show ?thesis unfolding unf by simp
  qed
qed

text \<open>
  Claim C9. In a frame of the particle driver the buffer of current positions is
  replaced, entry by entry, by the damping step toward the target of the mode, with rate
  12 in TREE and 2 otherwise. The result does not mention the elapsed time, which is
  the only input of the jitter: two frames that differ in the elapsed time alone leave
  the same buffer. The jitter, of amplitude 0.02 in TREE and 0.2 otherwise, appears in
  the rendered position of the frame only, added to the damped entry. When the mesh is
  not mounted the frame changes nothing.
\<close>

theorem jitter_not_accumulated:
  assumes "wfLayout L" and "length cur = PARTICLE_COUNT * 3" and "length mesh = PARTICLE_COUNT"
  shows "fst (ornamentsFrame appSt L time delta (cur, Some mesh)) =
           map (\<lambda>k. damp (cur ! k) (targets appSt L ! k) (rate appSt) delta) [0..<PARTICLE_COUNT * 3] \<and>
         fst (ornamentsFrame appSt L time delta (cur, Some mesh)) =
           fst (ornamentsFrame appSt L time' delta (cur, Some mesh)) \<and>
         (\<forall>i<PARTICLE_COUNT.
            position (the (snd (ornamentsFrame appSt L time delta (cur, Some mesh))) ! i) =
              jittered appSt time i (fst (ornamentsFrame appSt L time delta (cur, Some mesh)))) \<and>
         ornamentsFrame appSt L time delta (cur, None) = (cur, None)"
proof -
  have closed: "fst (ornamentsFrame appSt L t delta (cur, Some mesh)) =
      map (\<lambda>k. damp (cur ! k) (targets appSt L ! k) (rate appSt) delta) [0..<PARTICLE_COUNT * 3]" for t
  proof (rule nth_equalityI)
    show "length (fst (ornamentsFrame appSt L t delta (cur, Some mesh))) =
          length (map (\<lambda>k. damp (cur ! k) (targets appSt L ! k) (rate appSt) delta) [0..<PARTICLE_COUNT * 3])"
      using loop_fst_nth [of "(cur, mesh)" PARTICLE_COUNT appSt L t delta 0] assms(2)
      by (simp add: ornamentsFrame_def Let_def)
  next
    fix k assume "k < length (fst (ornamentsFrame appSt L t delta (cur, Some mesh)))"
    then have k: "k < PARTICLE_COUNT * 3"
      using loop_fst_nth [of "(cur, mesh)" PARTICLE_COUNT appSt L t delta 0] assms(2)
      by (simp add: ornamentsFrame_def Let_def)
    then show "fst (ornamentsFrame appSt L t delta (cur, Some mesh)) ! k =
          map (\<lambda>k. damp (cur ! k) (targets appSt L ! k) (rate appSt) delta) [0..<PARTICLE_COUNT * 3] ! k"
      using loop_fst_nth [of "(cur, mesh)" PARTICLE_COUNT appSt L t delta 0 k] assms(2)
      by (simp add: ornamentsFrame_def Let_def)
  qed
  have pos: "position (the (snd (ornamentsFrame appSt L time delta (cur, Some mesh))) ! i) =
              jittered appSt time i (fst (ornamentsFrame appSt L time delta (cur, Some mesh)))"
    if "i < PARTICLE_COUNT" for i
    using loop_position [of "(cur, mesh)" PARTICLE_COUNT 0 i appSt L time delta] assms that
    by (simp add: ornamentsFrame_def Let_def)
  have unmounted: "ornamentsFrame appSt L time delta (cur, None) = (cur, None)"
    by (simp add: ornamentsFrame_def)
  from closed [of time] closed [of time'] pos unmounted show ?thesis by simp
qed

theorem jitter_not_accumulated_witness:
  "wfLayout flatLayout \<and> length (replicate 450 (1::real)) = PARTICLE_COUNT * 3 \<and>
   length (replicate 150 blankInstance) = PARTICLE_COUNT \<and> 7 < PARTICLE_COUNT \<and>
   fst (ornamentsFrame SCATTERED flatLayout 5 (1/60) (replicate 450 1, Some (replicate 150 blankInstance))) ! 7 =
     damp 1 2 2 (1/60) \<and>
   fst (ornamentsFrame SCATTERED flatLayout 5 (1/60) (replicate 450 1, Some (replicate 150 blankInstance))) =
     fst (ornamentsFrame SCATTERED flatLayout 9 (1/60) (replicate 450 1, Some (replicate 150 blankInstance))) \<and>
   position (the (snd (ornamentsFrame SCATTERED flatLayout 5 (1/60)
        (replicate 450 1, Some (replicate 150 blankInstance)))) ! 7) =
     (damp 1 2 2 (1/60) + sin (5 + 7) * 0.2,
      damp 1 2 2 (1/60) + cos (5 * 0.8 + 7) * 0.2,
      damp 1 2 2 (1/60) + sin (5 * 0.5 + 7) * 0.2)"
proof -
  have a: "wfLayout flatLayout" by (simp add: wfLayout_def flatLayout_def PARTICLE_COUNT_def)
  have b: "length (replicate 450 (1::real)) = PARTICLE_COUNT * 3" by (simp add: PARTICLE_COUNT_def)
  have c: "length (replicate 150 blankInstance) = PARTICLE_COUNT" by (simp add: PARTICLE_COUNT_def)
  have d: "(7::nat) < PARTICLE_COUNT" by (simp add: PARTICLE_COUNT_def)
  note main = jitter_not_accumulated [OF a b c, of SCATTERED 5 "1/60" 9]
  have buf: "fst (ornamentsFrame SCATTERED flatLayout 5 (1/60)
               (replicate 450 1, Some (replicate 150 blankInstance))) ! k = damp 1 2 2 (1/60)"
    if "k < 450" for k
    using main that
    by (simp add: PARTICLE_COUNT_def targets_def rate_def flatLayout_def)
  from main d
  have "position (the (snd (ornamentsFrame SCATTERED flatLayout 5 (1/60)
          (replicate 450 1, Some (replicate 150 blankInstance)))) ! 7) =
        jittered SCATTERED 5 7 (fst (ornamentsFrame SCATTERED flatLayout 5 (1/60)
          (replicate 450 1, Some (replicate 150 blankInstance))))"
    by blast
  then have pos: "position (the (snd (ornamentsFrame SCATTERED flatLayout 5 (1/60)
          (replicate 450 1, Some (replicate 150 blankInstance)))) ! 7) =
     (damp 1 2 2 (1/60) + sin (5 + 7) * 0.2,
      damp 1 2 2 (1/60) + cos (5 * 0.8 + 7) * 0.2,
      damp 1 2 2 (1/60) + sin (5 * 0.5 + 7) * 0.2)"
    by (simp add: jittered_def noise_def buf)
  from main have same: "fst (ornamentsFrame SCATTERED flatLayout 5 (1/60)
        (replicate 450 1, Some (replicate 150 blankInstance))) =
     fst (ornamentsFrame SCATTERED flatLayout 9 (1/60)
        (replicate 450 1, Some (replicate 150 blankInstance)))"
    by blast
  from a b c d buf [of 7] same pos show ?thesis by simp
qed

end
